theory Spec2Isabelle
  imports Main "HOL-Library.Code_Target_Nat"
begin

section \<open>Values\<close>

text \<open>
  The values the store holds are JSON data plus \<open>undefined\<close>. Numbers are the integers
  (which a double holds exactly up to \<open>2^53\<close>) and \<open>NaN\<close>; fractions and infinities are
  not represented. Every object and array carries the reference it was allocated at:
  the strict equality \<open>===\<close> of the language compares two objects or two arrays by that
  reference only, while structural equality ignores it. A value is a tree: one mutable
  object shared by two places of the Document is not represented. A value is also
  finite: a Document that holds itself, on which serialisation throws, is not
  represented. \<open>JBuiltin k\<close> is the member that a plain object inherits from
  \<open>Object.prototype\<close> under the name \<open>k\<close>: a built-in function, or the prototype
  object itself for \<open>__proto__\<close>.
\<close>

type_synonym ref = nat

datatype jsvalue =
    JUndefined
  | JNull
  | JBool bool
  | JNumber int
  | JNaN
  | JString string
  | JArray ref "jsvalue list"
  | JObject ref "(string \<times> jsvalue) list"
  | JBuiltin string

datatype error =
    TypeError
  | SyntaxError
  | Error string
  | Unmodelled

text \<open>
  \<open>TypeError\<close> is what the runtime throws on a property access on \<open>undefined\<close> or
  \<open>null\<close> and on a call of something that is not a function; \<open>Error msg\<close> is the
  \<open>throw new Error(msg)\<close> of the source. \<open>Unmodelled\<close> marks the steps that leave the
  values above: a named property or a hole on an array, a member inherited by an array,
  a string, a number or a boolean, a change of the prototype of an object, and the
  properties and the text of a built-in member.
\<close>

fun truthy :: "jsvalue \<Rightarrow> bool" where
  "truthy JUndefined = False"
| "truthy JNull = False"
| "truthy (JBool b) = b"
| "truthy (JNumber n) = (n \<noteq> 0)"
| "truthy JNaN = False"
| "truthy (JString s) = (s \<noteq> [])"
| "truthy (JArray r xs) = True"
| "truthy (JObject r kvs) = True"
| "truthy (JBuiltin k) = True"

text \<open>\<open>a === b\<close>.\<close>

fun strict_eq :: "jsvalue \<Rightarrow> jsvalue \<Rightarrow> bool" where
  "strict_eq JUndefined JUndefined = True"
| "strict_eq JNull JNull = True"
| "strict_eq (JBool a) (JBool b) = (a = b)"
| "strict_eq (JNumber a) (JNumber b) = (a = b)"
| "strict_eq (JString a) (JString b) = (a = b)"
| "strict_eq (JArray r xs) (JArray r' ys) = (r = r')"
| "strict_eq (JObject r xs) (JObject r' ys) = (r = r')"
| "strict_eq (JBuiltin k) (JBuiltin k') = (k = k')"
| "strict_eq a b = False"

text \<open>Structural equality: the same tree, whatever the references.\<close>

fun erase :: "jsvalue \<Rightarrow> jsvalue" where
  "erase (JArray r xs) = JArray 0 (map erase xs)"
| "erase (JObject r kvs) = JObject 0 (map (\<lambda>(k, v). (k, erase v)) kvs)"
| "erase v = v"

definition struct_eq :: "jsvalue \<Rightarrow> jsvalue \<Rightarrow> bool" where
  "struct_eq a b = (erase a = erase b)"

fun primitive :: "jsvalue \<Rightarrow> bool" where
  "primitive (JArray r xs) = False"
| "primitive (JObject r kvs) = False"
| "primitive (JBuiltin k) = False"
| "primitive v = True"

section \<open>Property keys\<close>

definition digit_val :: "char \<Rightarrow> nat option" where
  "digit_val c = map_of
     [(CHR ''0'', 0), (CHR ''1'', 1), (CHR ''2'', 2), (CHR ''3'', 3), (CHR ''4'', 4),
      (CHR ''5'', 5), (CHR ''6'', 6), (CHR ''7'', 7), (CHR ''8'', 8), (CHR ''9'', 9)] c"

fun digits_val :: "string \<Rightarrow> nat \<Rightarrow> nat option" where
  "digits_val [] acc = Some acc"
| "digits_val (c # cs) acc =
     (case digit_val c of None \<Rightarrow> None | Some d \<Rightarrow> digits_val cs (10 * acc + d))"

text \<open>
  An array index is a key that is the canonical decimal form of an integer below
  \<open>2^32 - 1\<close>: digits only, no leading zero.
\<close>

definition array_index :: "string \<Rightarrow> nat option" where
  "array_index k =
     (case k of
        [] \<Rightarrow> None
      | c # cs \<Rightarrow>
          if c = CHR ''0'' \<and> cs \<noteq> [] then None
          else (case digits_val k 0 of
                  None \<Rightarrow> None
                | Some n \<Rightarrow> if n < 4294967295 then Some n else None))"

text \<open>\<open>key.split('.')\<close>: never empty; the empty string gives one empty segment.\<close>

fun split_dot :: "string \<Rightarrow> string list" where
  "split_dot [] = [[]]"
| "split_dot (c # cs) =
     (if c = CHR ''.'' then [] # split_dot cs
      else (case split_dot cs of
              [] \<Rightarrow> [[c]]
            | s # ss \<Rightarrow> (c # s) # ss))"

section \<open>Reading and writing a property\<close>

fun update_key :: "(string \<times> jsvalue) list \<Rightarrow> string \<Rightarrow> jsvalue \<Rightarrow> (string \<times> jsvalue) list" where
  "update_key [] k v = [(k, v)]"
| "update_key ((k', v') # kvs) k v =
     (if k' = k then (k, v) # kvs else (k', v') # update_key kvs k v)"

text \<open>The names of the members of \<open>Object.prototype\<close>.\<close>

definition inherited :: "string \<Rightarrow> bool" where
  "inherited k = (k \<in> set
     [''constructor'', ''__defineGetter__'', ''__defineSetter__'', ''hasOwnProperty'',
      ''__lookupGetter__'', ''__lookupSetter__'', ''isPrototypeOf'', ''propertyIsEnumerable'',
      ''toString'', ''valueOf'', ''__proto__'', ''toLocaleString''])"

text \<open>
  \<open>object[key]\<close>. On an object an own property comes first, then the member inherited
  under that name, then \<open>undefined\<close>. An array and a string have their elements and
  their \<open>length\<close>, and no value has an inherited member under an array index.
\<close>

fun js_get :: "jsvalue \<Rightarrow> string \<Rightarrow> error + jsvalue" where
  "js_get JUndefined k = Inl TypeError"
| "js_get JNull k = Inl TypeError"
| "js_get (JObject r kvs) k =
     (case map_of kvs k of
        None \<Rightarrow> Inr (if inherited k then JBuiltin k else JUndefined)
      | Some v \<Rightarrow> Inr v)"
| "js_get (JArray r xs) k =
     (if k = ''length'' then Inr (JNumber (int (length xs)))
      else (case array_index k of
              None \<Rightarrow> Inl Unmodelled
            | Some i \<Rightarrow> if i < length xs then Inr (xs ! i) else Inr JUndefined))"
| "js_get (JString s) k =
     (if k = ''length'' then Inr (JNumber (int (length s)))
      else (case array_index k of
              None \<Rightarrow> Inl Unmodelled
            | Some i \<Rightarrow> if i < length s then Inr (JString [s ! i]) else Inr JUndefined))"
| "js_get (JBuiltin b) k = Inl Unmodelled"
| "js_get v k = (case array_index k of None \<Rightarrow> Inl Unmodelled | Some i \<Rightarrow> Inr JUndefined)"

text \<open>
  \<open>object[key] = value\<close>, in the non-strict code of the two module-level helpers: on
  \<open>undefined\<close> and \<open>null\<close> it throws, on a string, number or boolean it is silently
  dropped. On an object without an own property \<open>__proto__\<close> the assignment to that
  name goes to the inherited setter, which replaces the prototype when the value is an
  object or \<open>null\<close> and otherwise does nothing; every other name is written as an own
  property. The result is the receiver after the assignment.
\<close>

fun js_put :: "jsvalue \<Rightarrow> string \<Rightarrow> jsvalue \<Rightarrow> error + jsvalue" where
  "js_put JUndefined k v = Inl TypeError"
| "js_put JNull k v = Inl TypeError"
| "js_put (JObject r kvs) k v =
     (if k = ''__proto__'' \<and> map_of kvs k = None
      then (if primitive v \<and> v \<noteq> JNull then Inr (JObject r kvs) else Inl Unmodelled)
      else Inr (JObject r (update_key kvs k v)))"
| "js_put (JArray r xs) k v =
     (case array_index k of
        None \<Rightarrow> Inl Unmodelled
      | Some i \<Rightarrow>
          if i < length xs then Inr (JArray r (xs[i := v]))
          else if i = length xs then Inr (JArray r (xs @ [v]))
          else Inl Unmodelled)"
| "js_put (JBuiltin b) k v = Inl Unmodelled"
| "js_put w k v = Inr w"

text \<open>
  The same assignment in the strict code of the class body, where an assignment to a
  property of a string, number or boolean throws, unless the inherited setter of
  \<open>__proto__\<close> takes it.
\<close>

fun js_put_strict :: "jsvalue \<Rightarrow> string \<Rightarrow> jsvalue \<Rightarrow> error + jsvalue" where
  "js_put_strict JUndefined k v = Inl TypeError"
| "js_put_strict JNull k v = Inl TypeError"
| "js_put_strict (JObject r kvs) k v = js_put (JObject r kvs) k v"
| "js_put_strict (JArray r xs) k v = js_put (JArray r xs) k v"
| "js_put_strict (JBuiltin b) k v = Inl Unmodelled"
| "js_put_strict w k v = (if k = ''__proto__'' then Inr w else Inl TypeError)"

text \<open>
  The source mutates an object it has read out of its parent. On a tree the changed
  child is put back into the own slot it was read from; a child read from a string,
  number or boolean was a fresh primitive and there is nothing to put back. The same
  object held at a second place of the Document is not followed.
\<close>

fun write_back :: "jsvalue \<Rightarrow> string \<Rightarrow> jsvalue \<Rightarrow> jsvalue" where
  "write_back (JObject r kvs) k child =
     (if map_of kvs k = None then JObject r kvs else JObject r (update_key kvs k child))"
| "write_back (JArray r xs) k child =
     (case array_index k of
        None \<Rightarrow> JArray r xs
      | Some i \<Rightarrow> if i < length xs then JArray r (xs[i := child]) else JArray r xs)"
| "write_back w k child = w"

section \<open>The path resolver\<close>

text \<open>
  \<open>setNestedProperty\<close> walks all segments but the last with \<open>object = object[p]\<close>,
  with no check, and assigns at the last one.
\<close>

fun set_walk :: "jsvalue \<Rightarrow> string list \<Rightarrow> jsvalue \<Rightarrow> error + jsvalue" where
  "set_walk obj [] v = js_put obj ''undefined'' v"
| "set_walk obj [p] v = js_put obj p v"
| "set_walk obj (p # q # ps) v =
     (case js_get obj p of
        Inl e \<Rightarrow> Inl e
      | Inr child \<Rightarrow>
          (case set_walk child (q # ps) v of
             Inl e \<Rightarrow> Inl e
           | Inr child' \<Rightarrow> Inr (write_back obj p child')))"

definition setNestedProperty :: "jsvalue \<Rightarrow> string \<Rightarrow> jsvalue \<Rightarrow> error + jsvalue" where
  "setNestedProperty object key v = set_walk object (split_dot key) v"

text \<open>\<open>getNestedProperty\<close>: \<open>object = object && object[p]\<close> for every segment.\<close>

fun get_walk :: "jsvalue \<Rightarrow> string list \<Rightarrow> error + jsvalue" where
  "get_walk obj [] = Inr obj"
| "get_walk obj (p # ps) =
     (if truthy obj
      then (case js_get obj p of Inl e \<Rightarrow> Inl e | Inr child \<Rightarrow> get_walk child ps)
      else get_walk obj ps)"

definition getNestedProperty :: "jsvalue \<Rightarrow> string \<Rightarrow> error + jsvalue" where
  "getNestedProperty object key = get_walk object (split_dot key)"

section \<open>Coercions and operators\<close>

definition digit_char :: "nat \<Rightarrow> char" where
  "digit_char d = ''0123456789abcdef'' ! d"

fun nat_digits :: "nat \<Rightarrow> string" where
  "nat_digits n =
     (if n < 10 then [digit_char n] else nat_digits (n div 10) @ [digit_char (n mod 10)])"

definition int_str :: "int \<Rightarrow> string" where
  "int_str i = (if i < 0 then CHR ''-'' # nat_digits (nat (- i)) else nat_digits (nat i))"

fun intercalate :: "string \<Rightarrow> string list \<Rightarrow> string" where
  "intercalate sep [] = []"
| "intercalate sep [s] = s"
| "intercalate sep (s # t # ss) = s @ sep @ intercalate sep (t # ss)"

fun collect :: "(error + 'a) list \<Rightarrow> error + 'a list" where
  "collect [] = Inr []"
| "collect (Inl e # rs) = Inl e"
| "collect (Inr x # rs) = (case collect rs of Inl e \<Rightarrow> Inl e | Inr xs \<Rightarrow> Inr (x # xs))"

text \<open>
  \<open>ToString\<close>. An array is joined with commas, \<open>undefined\<close> and \<open>null\<close> elements
  giving the empty string. An object gives \<open>[object Object]\<close> through the inherited
  \<open>toString\<close>; an own property of that name holds data, which cannot be called, and
  then the conversion throws.
\<close>

fun to_str :: "jsvalue \<Rightarrow> error + string" where
  "to_str JUndefined = Inr ''undefined''"
| "to_str JNull = Inr ''null''"
| "to_str (JBool b) = Inr (if b then ''true'' else ''false'')"
| "to_str (JNumber n) = Inr (int_str n)"
| "to_str JNaN = Inr ''NaN''"
| "to_str (JString s) = Inr s"
| "to_str (JArray r xs) =
     (case collect (map (\<lambda>x. if x = JUndefined \<or> x = JNull then Inr [] else to_str x) xs) of
        Inl e \<Rightarrow> Inl e
      | Inr ss \<Rightarrow> Inr (intercalate '','' ss))"
| "to_str (JObject r kvs) =
     (if map_of kvs ''toString'' = None then Inr ''[object Object]'' else Inl TypeError)"
| "to_str (JBuiltin b) = Inl Unmodelled"

definition to_primitive :: "jsvalue \<Rightarrow> error + jsvalue" where
  "to_primitive v =
     (if primitive v then Inr v
      else (case to_str v of Inl e \<Rightarrow> Inl e | Inr s \<Rightarrow> Inr (JString s)))"

text \<open>
  \<open>ToNumber\<close> of a primitive; \<open>None\<close> is \<open>NaN\<close>. The numeric reading of a string
  (\<open>StringToNumber\<close> of the language) is the parameter \<open>s2n\<close>.
\<close>

fun to_number :: "(string \<Rightarrow> int option) \<Rightarrow> jsvalue \<Rightarrow> int option" where
  "to_number s2n JUndefined = None"
| "to_number s2n JNull = Some 0"
| "to_number s2n (JBool b) = Some (if b then 1 else 0)"
| "to_number s2n (JNumber n) = Some n"
| "to_number s2n JNaN = None"
| "to_number s2n (JString s) = s2n s"
| "to_number s2n v = None"

definition of_number :: "int option \<Rightarrow> jsvalue" where
  "of_number n = (case n of None \<Rightarrow> JNaN | Some i \<Rightarrow> JNumber i)"

fun is_string :: "jsvalue \<Rightarrow> bool" where
  "is_string (JString s) = True"
| "is_string v = False"

text \<open>
  \<open>a + b\<close>: both sides are made primitive; as soon as one of them is a string the
  result is the concatenation of their strings, otherwise their sum as numbers (no
  string is left to be read as a number there).
\<close>

definition js_plus :: "jsvalue \<Rightarrow> jsvalue \<Rightarrow> error + jsvalue" where
  "js_plus a b =
     (case to_primitive a of
        Inl e \<Rightarrow> Inl e
      | Inr pa \<Rightarrow>
          (case to_primitive b of
             Inl e \<Rightarrow> Inl e
           | Inr pb \<Rightarrow>
               if is_string pa \<or> is_string pb
               then (case to_str pa of
                       Inl e \<Rightarrow> Inl e
                     | Inr sa \<Rightarrow>
                         (case to_str pb of
                            Inl e \<Rightarrow> Inl e
                          | Inr sb \<Rightarrow> Inr (JString (sa @ sb))))
               else (case (to_number (\<lambda>s. None) pa, to_number (\<lambda>s. None) pb) of
                       (Some x, Some y) \<Rightarrow> Inr (JNumber (x + y))
                     | _ \<Rightarrow> Inr JNaN)))"

text \<open>\<open>a - b\<close>: both sides are read as numbers.\<close>

definition js_minus :: "(string \<Rightarrow> int option) \<Rightarrow> jsvalue \<Rightarrow> jsvalue \<Rightarrow> error + jsvalue" where
  "js_minus s2n a b =
     (case to_primitive a of
        Inl e \<Rightarrow> Inl e
      | Inr pa \<Rightarrow>
          (case to_primitive b of
             Inl e \<Rightarrow> Inl e
           | Inr pb \<Rightarrow>
               (case (to_number s2n pa, to_number s2n pb) of
                  (Some x, Some y) \<Rightarrow> Inr (JNumber (x - y))
                | _ \<Rightarrow> Inr JNaN)))"

section \<open>Own keys and serialisation\<close>

text \<open>
  The order of the own keys of an object: the array indices in ascending numeric order
  first, then the other keys in the order they were created in.
\<close>

definition index_or_zero :: "string \<Rightarrow> nat" where
  "index_or_zero k = (case array_index k of None \<Rightarrow> 0 | Some i \<Rightarrow> i)"

definition own_order :: "(string \<times> 'a) list \<Rightarrow> (string \<times> 'a) list" where
  "own_order kvs =
     sort_key (\<lambda>kv. index_or_zero (fst kv)) (filter (\<lambda>kv. array_index (fst kv) \<noteq> None) kvs)
     @ filter (\<lambda>kv. array_index (fst kv) = None) kvs"

text \<open>\<open>Object.keys(v)\<close>.\<close>

fun object_keys :: "jsvalue \<Rightarrow> error + string list" where
  "object_keys JUndefined = Inl TypeError"
| "object_keys JNull = Inl TypeError"
| "object_keys (JObject r kvs) = Inr (map fst (own_order kvs))"
| "object_keys (JArray r xs) = Inr (map nat_digits [0..<length xs])"
| "object_keys (JString s) = Inr (map nat_digits [0..<length s])"
| "object_keys v = Inr []"

text \<open>The built-in members are functions, but for the prototype object.\<close>

fun is_function :: "jsvalue \<Rightarrow> bool" where
  "is_function (JBuiltin b) = (b \<noteq> ''__proto__'')"
| "is_function v = False"

definition quote_char :: "char \<Rightarrow> string" where
  "quote_char c =
     (if c = CHR 0x22 then [CHR 0x5C, CHR 0x22]
      else if c = CHR 0x5C then [CHR 0x5C, CHR 0x5C]
      else if c = CHR 0x08 then [CHR 0x5C, CHR ''b'']
      else if c = CHR 0x09 then [CHR 0x5C, CHR ''t'']
      else if c = CHR 0x0A then [CHR 0x5C, CHR ''n'']
      else if c = CHR 0x0C then [CHR 0x5C, CHR ''f'']
      else if c = CHR 0x0D then [CHR 0x5C, CHR ''r'']
      else if (of_char c :: nat) < 32
      then [CHR 0x5C, CHR ''u'', CHR ''0'', CHR ''0'',
            digit_char (of_char c div 16), digit_char (of_char c mod 16)]
      else [c])"

definition quote :: "string \<Rightarrow> string" where
  "quote s = CHR 0x22 # concat (map quote_char s) @ [CHR 0x22]"

definition newline :: "nat \<Rightarrow> string" where
  "newline ind = CHR 0x0A # replicate ind CHR '' ''"

text \<open>
  \<open>JSON.stringify(v, null, 2)\<close> below the root, at indentation \<open>ind\<close>. \<open>undefined\<close>,
  a function and \<open>NaN\<close> are written \<open>null\<close> inside an array; a property holding
  \<open>undefined\<close> or a function is left out. The prototype object has no enumerable
  property.
\<close>

fun serialize :: "nat \<Rightarrow> jsvalue \<Rightarrow> string" where
  "serialize ind JUndefined = ''null''"
| "serialize ind JNull = ''null''"
| "serialize ind (JBool b) = (if b then ''true'' else ''false'')"
| "serialize ind (JNumber n) = int_str n"
| "serialize ind JNaN = ''null''"
| "serialize ind (JString s) = quote s"
| "serialize ind (JArray r xs) =
     (if xs = [] then ''[]''
      else ''['' @ newline (ind + 2)
           @ intercalate ('','' @ newline (ind + 2)) (map (serialize (ind + 2)) xs)
           @ newline ind @ '']'')"
| "serialize ind (JObject r kvs) =
     (let props = own_order
            (map (\<lambda>(k, v). (k, (v = JUndefined \<or> is_function v, serialize (ind + 2) v))) kvs);
          shown = filter (\<lambda>(k, u, s). \<not> u) props
      in if shown = [] then ''{}''
         else ''{'' @ newline (ind + 2)
              @ intercalate ('','' @ newline (ind + 2))
                  (map (\<lambda>(k, u, s). quote k @ '': '' @ s) shown)
              @ newline ind @ ''}'')"
| "serialize ind (JBuiltin b) = (if b = ''__proto__'' then ''{}'' else ''null'')"

text \<open>
  At the root \<open>JSON.stringify\<close> gives \<open>undefined\<close>, not a string, for \<open>undefined\<close>
  and for a function.
\<close>

definition JSON_stringify :: "jsvalue \<Rightarrow> string option" where
  "JSON_stringify v = (if v = JUndefined \<or> is_function v then None else Some (serialize 0 v))"

fun js_typeof :: "jsvalue \<Rightarrow> string" where
  "js_typeof JUndefined = ''undefined''"
| "js_typeof JNull = ''object''"
| "js_typeof (JBool b) = ''boolean''"
| "js_typeof (JNumber n) = ''number''"
| "js_typeof JNaN = ''number''"
| "js_typeof (JString s) = ''string''"
| "js_typeof (JArray r xs) = ''object''"
| "js_typeof (JObject r kvs) = ''object''"
| "js_typeof (JBuiltin b) = (if b = ''__proto__'' then ''object'' else ''function'')"

section \<open>The store\<close>

text \<open>
  The options of the store that the code reads (\<open>options.backups\<close>), the fields of the
  instance, and what the instance acts on: the files and directories of the file
  system, the intervals of the timers it has installed, and the next free reference.
  An absent option is \<open>None\<close>; \<open>||\<close> also replaces an empty string and a zero.
\<close>

record backups_options =
  enabled :: bool
  interval :: "nat option"
  path :: "string option"

record db =
  jsonFilePath :: string
  backups :: "backups_options option"
  data :: jsvalue
  files :: "string \<rightharpoonup> string"
  dirs :: "string set"
  timers :: "nat list"
  fresh :: ref

type_synonym 'a result = "(error + 'a) \<times> db"

definition string_or :: "string option \<Rightarrow> string \<Rightarrow> string" where
  "string_or a d = (case a of None \<Rightarrow> d | Some x \<Rightarrow> if x = [] then d else x)"

definition nat_or :: "nat option \<Rightarrow> nat \<Rightarrow> nat" where
  "nat_or a d = (case a of None \<Rightarrow> d | Some x \<Rightarrow> if x = 0 then d else x)"

definition existsSync :: "db \<Rightarrow> string \<Rightarrow> bool" where
  "existsSync s p = (p \<in> dirs s \<or> files s p \<noteq> None)"

definition ensure_dir :: "db \<Rightarrow> string \<Rightarrow> db" where
  "ensure_dir s p = (if existsSync s p then s else s\<lparr>dirs := insert p (dirs s)\<rparr>)"

definition and_then :: "error + 'a \<Rightarrow> ('a \<Rightarrow> error + 'b) \<Rightarrow> error + 'b" where
  "and_then r f = (case r of Inl e \<Rightarrow> Inl e | Inr x \<Rightarrow> f x)"

text \<open>\<open>save\<close>: the whole Document, serialised, replaces the contents of the file.\<close>

definition save :: "db \<Rightarrow> unit result" where
  "save s =
     (case JSON_stringify (data s) of
        None \<Rightarrow> (Inl TypeError, s)
      | Some text \<Rightarrow> (Inr (), s\<lparr>files := (files s)(jsonFilePath s \<mapsto> text)\<rparr>))"

text \<open>
  \<open>fetchDataFromFile\<close>. \<open>JSON.parse\<close> is the parameter \<open>parse\<close>; it throws a
  \<open>SyntaxError\<close> on a text that is not JSON.
\<close>

definition fetchDataFromFile :: "(string \<Rightarrow> error + jsvalue) \<Rightarrow> db \<Rightarrow> unit result" where
  "fetchDataFromFile parse s =
     (case files s (jsonFilePath s) of
        None \<Rightarrow> (Inl (Error ''ENOENT''), s)
      | Some text \<Rightarrow>
          (case parse text of
             Inl e \<Rightarrow> (Inl e, s)
           | Inr savedData \<Rightarrow>
               if js_typeof savedData = ''object'' then (Inr (), s\<lparr>data := savedData\<rparr>)
               else (Inr (), s)))"

definition constructor ::
  "(string \<Rightarrow> error + jsvalue) \<Rightarrow> (string \<rightharpoonup> string) \<Rightarrow> string set \<Rightarrow> ref
     \<Rightarrow> string option \<Rightarrow> backups_options option \<Rightarrow> unit result" where
  "constructor parse fs ds next_ref filePath opts =
     (let s0 = \<lparr>jsonFilePath = string_or filePath ''./my-database.json'', backups = opts,
                data = JUndefined, files = fs, dirs = ds, timers = [], fresh = next_ref\<rparr>;
          s1 = (case opts of
                  None \<Rightarrow> s0
                | Some b \<Rightarrow>
                    if enabled b
                    then (ensure_dir s0 (string_or (path b) ''./backups/''))
                           \<lparr>timers := [nat_or (interval b) 86400000]\<rparr>
                    else s0);
          s2 = s1\<lparr>data := JObject (fresh s1) [], fresh := Suc (fresh s1)\<rparr>
      in if \<not> existsSync s2 (jsonFilePath s2)
         then (Inr (), s2\<lparr>files := (files s2)(jsonFilePath s2 \<mapsto> ''{}'')\<rparr>)
         else fetchDataFromFile parse s2)"

definition snapshot_name :: "int \<Rightarrow> string" where
  "snapshot_name now = ''backup-'' @ int_str now @ ''.json''"

text \<open>
  \<open>makeSnapshot(path)\<close> at the time \<open>now\<close> of \<open>Date.now()\<close>. The directory is
  \<open>path || this.options.backups.path || './backups/'\<close>, which throws when no path is
  given and the store has no \<open>backups\<close> option. The file to write is then named by
  \<open>path.join(path, fileName)\<close>, where \<open>path\<close> is the string just computed: a string
  has no member \<open>join\<close>, the call throws, and \<open>fs.writeFileSync\<close> is not reached.
\<close>

definition makeSnapshot :: "db \<Rightarrow> string option \<Rightarrow> int \<Rightarrow> unit result" where
  "makeSnapshot s path_arg now =
     (case (if string_or path_arg [] \<noteq> [] then Inr (string_or path_arg [])
            else (case backups s of
                    None \<Rightarrow> Inl TypeError
                  | Some b \<Rightarrow> Inr (string_or (path b) ''./backups/''))) of
        Inl e \<Rightarrow> (Inl e, s)
      | Inr p \<Rightarrow>
          (let s1 = ensure_dir s p;
               fileName = snapshot_name now
           in (Inl TypeError, s1)))"

definition get :: "db \<Rightarrow> string \<Rightarrow> error + jsvalue" where
  "get s key = getNestedProperty (data s) key"

definition has :: "db \<Rightarrow> string \<Rightarrow> error + bool" where
  "has s key = and_then (getNestedProperty (data s) key) (\<lambda>v. Inr (v \<noteq> JUndefined \<and> v \<noteq> JNull))"

definition set_db :: "db \<Rightarrow> string \<Rightarrow> jsvalue \<Rightarrow> unit result" where
  "set_db s key v =
     (case setNestedProperty (data s) key v of
        Inl e \<Rightarrow> (Inl e, s)
      | Inr d \<Rightarrow> save (s\<lparr>data := d\<rparr>))"

text \<open>
  \<open>delete object[key]\<close> in strict code: an own property of an object is removed; a
  property that cannot be removed (\<open>length\<close>, a character of a string) throws.
\<close>

fun js_delete :: "jsvalue \<Rightarrow> string \<Rightarrow> error + jsvalue" where
  "js_delete JUndefined k = Inl TypeError"
| "js_delete JNull k = Inl TypeError"
| "js_delete (JObject r kvs) k = Inr (JObject r (filter (\<lambda>kv. fst kv \<noteq> k) kvs))"
| "js_delete (JArray r xs) k =
     (if k = ''length'' then Inl TypeError
      else (case array_index k of
              None \<Rightarrow> Inr (JArray r xs)
            | Some i \<Rightarrow> if i < length xs then Inl Unmodelled else Inr (JArray r xs)))"
| "js_delete (JString t) k =
     (if k = ''length'' then Inl TypeError
      else (case array_index k of
              None \<Rightarrow> Inr (JString t)
            | Some i \<Rightarrow> if i < length t then Inl TypeError else Inr (JString t)))"
| "js_delete (JBuiltin b) k = Inl Unmodelled"
| "js_delete w k = Inr w"

definition delete :: "db \<Rightarrow> string \<Rightarrow> unit result" where
  "delete s key =
     (case js_delete (data s) key of
        Inl e \<Rightarrow> (Inl e, s)
      | Inr d \<Rightarrow> save (s\<lparr>data := d\<rparr>))"

text \<open>\<open>if (!this.data[key]) this.data[key] = init\<close>.\<close>

definition init_key :: "jsvalue \<Rightarrow> string \<Rightarrow> jsvalue \<Rightarrow> error + jsvalue" where
  "init_key d key init =
     and_then (js_get d key) (\<lambda>v. if \<not> truthy v then js_put_strict d key init else Inr d)"

definition add :: "db \<Rightarrow> string \<Rightarrow> jsvalue \<Rightarrow> unit result" where
  "add s key count =
     (case init_key (data s) key (JNumber 0) of
        Inl e \<Rightarrow> (Inl e, s)
      | Inr d1 \<Rightarrow>
          (case and_then (js_get d1 key) (\<lambda>cur.
                and_then (js_plus cur count) (\<lambda>r. js_put_strict d1 key r)) of
             Inl e \<Rightarrow> (Inl e, s\<lparr>data := d1\<rparr>)
           | Inr d2 \<Rightarrow> save (s\<lparr>data := d2\<rparr>)))"

definition subtract :: "(string \<Rightarrow> int option) \<Rightarrow> db \<Rightarrow> string \<Rightarrow> jsvalue \<Rightarrow> unit result" where
  "subtract s2n s key count =
     (case init_key (data s) key (JNumber 0) of
        Inl e \<Rightarrow> (Inl e, s)
      | Inr d1 \<Rightarrow>
          (case and_then (js_get d1 key) (\<lambda>cur.
                and_then (js_minus s2n cur count) (\<lambda>r. js_put_strict d1 key r)) of
             Inl e \<Rightarrow> (Inl e, s\<lparr>data := d1\<rparr>)
           | Inr d2 \<Rightarrow> save (s\<lparr>data := d2\<rparr>)))"

text \<open>
  \<open>push\<close>: \<open>this.data[key].push(element)\<close> appends in place when the value is an
  array; no other value has a callable member \<open>push\<close>, and the call throws.
\<close>

definition push :: "db \<Rightarrow> string \<Rightarrow> jsvalue \<Rightarrow> unit result" where
  "push s key element =
     (case init_key (data s) key (JArray (fresh s) []) of
        Inl e \<Rightarrow> (Inl e, s)
      | Inr d1 \<Rightarrow>
          (let s1 = s\<lparr>data := d1, fresh := Suc (fresh s)\<rparr>
           in case js_get d1 key of
                Inl e \<Rightarrow> (Inl e, s1)
              | Inr (JArray r xs) \<Rightarrow> save (s1\<lparr>data := write_back d1 key (JArray r (xs @ [element]))\<rparr>)
              | Inr w \<Rightarrow> (Inl TypeError, s1)))"

text \<open>\<open>xs.indexOf(element)\<close>, \<open>None\<close> for \<open>-1\<close>; \<open>xs.splice(i, 1)\<close>.\<close>

fun indexOf :: "jsvalue list \<Rightarrow> jsvalue \<Rightarrow> nat option" where
  "indexOf [] element = None"
| "indexOf (x # xs) element =
     (if strict_eq x element then Some 0 else map_option Suc (indexOf xs element))"

definition splice1 :: "'a list \<Rightarrow> nat \<Rightarrow> 'a list" where
  "splice1 xs i = take i xs @ drop (Suc i) xs"

definition occurs_in :: "string \<Rightarrow> string \<Rightarrow> bool" where
  "occurs_in t u = list_ex (\<lambda>i. take (length t) (drop i u) = t) [0..<Suc (length u)]"

text \<open>
  \<open>pullOne\<close>. On a string the member \<open>indexOf\<close> is the substring search of strings,
  and \<open>splice\<close> is missing: the call throws when the element, as a string, occurs.
  No other value than an array or a string has a callable \<open>indexOf\<close>.
\<close>

definition pullOne :: "db \<Rightarrow> string \<Rightarrow> jsvalue \<Rightarrow> unit result" where
  "pullOne s key element =
     (case init_key (data s) key (JArray (fresh s) []) of
        Inl e \<Rightarrow> (Inl e, s)
      | Inr d1 \<Rightarrow>
          (let s1 = s\<lparr>data := d1, fresh := Suc (fresh s)\<rparr>
           in case js_get d1 key of
                Inl e \<Rightarrow> (Inl e, s1)
              | Inr (JArray r xs) \<Rightarrow>
                  (case indexOf xs element of
                     None \<Rightarrow> save s1
                   | Some index \<Rightarrow>
                       save (s1\<lparr>data := write_back d1 key (JArray r (splice1 xs index))\<rparr>))
              | Inr (JString u) \<Rightarrow>
                  (case to_str element of
                     Inl e \<Rightarrow> (Inl e, s1)
                   | Inr t \<Rightarrow> if occurs_in t u then (Inl TypeError, s1) else save s1)
              | Inr w \<Rightarrow> (Inl TypeError, s1)))"

text \<open>The loop of \<open>pullMany\<close> on an array.\<close>

function pull_loop :: "jsvalue list \<Rightarrow> jsvalue \<Rightarrow> nat \<Rightarrow> jsvalue list" where
  "pull_loop val element i =
     (if i < length val
      then (if strict_eq (val ! i) element
            then pull_loop (splice1 val i) element i
            else pull_loop val element (Suc i))
      else val)"
  by pat_completeness auto
termination
  by (relation "measure (\<lambda>(val, element, i). length val - i)") (auto simp: splice1_def)

declare pull_loop.simps [simp del]

text \<open>
  \<open>pullMany\<close>. On a string the loop reads the characters and throws at the first one
  equal to the element, \<open>splice\<close> being missing; a number or a boolean has no
  \<open>length\<close> and the loop does not run, nor does it on an object without a property
  \<open>length\<close>, nor on the prototype object. On a built-in function the loop reads
  \<open>undefined\<close> at every index below the \<open>length\<close> of the function, which equals no
  element but \<open>undefined\<close>.
\<close>

definition pullMany :: "db \<Rightarrow> string \<Rightarrow> jsvalue \<Rightarrow> unit result" where
  "pullMany s key element =
     (case init_key (data s) key (JArray (fresh s) []) of
        Inl e \<Rightarrow> (Inl e, s)
      | Inr d1 \<Rightarrow>
          (let s1 = s\<lparr>data := d1, fresh := Suc (fresh s)\<rparr>
           in case js_get d1 key of
                Inl e \<Rightarrow> (Inl e, s1)
              | Inr (JArray r xs) \<Rightarrow>
                  save (s1\<lparr>data := write_back d1 key (JArray r (pull_loop xs element 0))\<rparr>)
              | Inr (JString u) \<Rightarrow>
                  if list_ex (\<lambda>c. strict_eq (JString [c]) element) u
                  then (Inl TypeError, s1) else save s1
              | Inr (JObject r kvs) \<Rightarrow>
                  if map_of kvs ''length'' = None then save s1 else (Inl Unmodelled, s1)
              | Inr (JBuiltin b) \<Rightarrow>
                  if b \<noteq> ''__proto__'' \<and> element = JUndefined then (Inl Unmodelled, s1)
                  else save s1
              | Inr w \<Rightarrow> save s1))"

definition no_key_message :: "string \<Rightarrow> string" where
  "no_key_message key = ''there is no key '' @ [CHR 0x22] @ key @ [CHR 0x22] @ '', in your database''"

definition clear :: "db \<Rightarrow> string \<Rightarrow> unit result" where
  "clear s key =
     (case js_get (data s) key of
        Inl e \<Rightarrow> (Inl e, s)
      | Inr v \<Rightarrow>
          if \<not> truthy v then (Inl (Error (no_key_message key)), s)
          else (case js_put_strict (data s) key (JObject (fresh s) []) of
                  Inl e \<Rightarrow> (Inl e, s)
                | Inr d \<Rightarrow> save (s\<lparr>data := d, fresh := Suc (fresh s)\<rparr>)))"

definition clearAll :: "db \<Rightarrow> unit result" where
  "clearAll s = save (s\<lparr>data := JObject (fresh s) [], fresh := Suc (fresh s)\<rparr>)"

text \<open>\<open>all\<close>: a record \<open>{key, data}\<close> is the pair of the key and the value.\<close>

definition all :: "db \<Rightarrow> error + (string \<times> jsvalue) list" where
  "all s =
     and_then (object_keys (data s)) (\<lambda>ks.
       collect (map (\<lambda>key. and_then (js_get (data s) key) (\<lambda>v. Inr (key, v))) ks))"

section \<open>Paths through existing mappings\<close>

text \<open>
  \<open>descend obj ps\<close> is the object reached from \<open>obj\<close> along the segments \<open>ps\<close> when
  \<open>obj\<close> is an object and every segment resolves, in turn, to an existing object.
\<close>

fun descend :: "jsvalue \<Rightarrow> string list \<Rightarrow> jsvalue option" where
  "descend (JObject r kvs) [] = Some (JObject r kvs)"
| "descend (JObject r kvs) (p # ps) =
     (case map_of kvs p of None \<Rightarrow> None | Some child \<Rightarrow> descend child ps)"
| "descend w ps = None"

fun is_object :: "jsvalue \<Rightarrow> bool" where
  "is_object (JObject r kvs) = True"
| "is_object w = False"


text \<open>A store over an empty file system, holding the Document \<open>d\<close>.\<close>

definition store_of :: "jsvalue \<Rightarrow> db" where
  "store_of d = \<lparr>jsonFilePath = ''./my-database.json'', backups = None, data = d,
                 files = Map.empty, dirs = {}, timers = [], fresh = 100\<rparr>"

text \<open>
  The mutating operations of the public surface, and a call of one of them. The
  parameter \<open>s2n\<close> is the numeric reading of strings that \<open>subtract\<close> needs.
\<close>

datatype mutation =
    Set string jsvalue
  | Delete string
  | Add string jsvalue
  | Subtract string jsvalue
  | Push string jsvalue
  | PullOne string jsvalue
  | PullMany string jsvalue
  | Clear string
  | ClearAll

fun mutate :: "(string \<Rightarrow> int option) \<Rightarrow> db \<Rightarrow> mutation \<Rightarrow> unit result" where
  "mutate s2n s (Set key v) = set_db s key v"
| "mutate s2n s (Delete key) = delete s key"
| "mutate s2n s (Add key count) = add s key count"
| "mutate s2n s (Subtract key count) = subtract s2n s key count"
| "mutate s2n s (Push key element) = push s key element"
| "mutate s2n s (PullOne key element) = pullOne s key element"
| "mutate s2n s (PullMany key element) = pullMany s key element"
| "mutate s2n s (Clear key) = clear s key"
| "mutate s2n s ClearAll = clearAll s"

text \<open>A store whose Document holds the sequence \<open>xs\<close> under the key \<open>list\<close>.\<close>

definition list_store :: "jsvalue list \<Rightarrow> db" where
  "list_store xs = store_of (JObject 0 [(''list'', JArray 1 xs)])"

text \<open>The store after \<open>set(k, v)\<close> for each pair of a list, in turn, on an empty Document.\<close>

definition after_sets :: "(string \<times> jsvalue) list \<Rightarrow> db" where
  "after_sets kvs = fold (\<lambda>kv s. snd (set_db s (fst kv) (snd kv))) kvs (store_of (JObject 0 []))"

text \<open>
  The references of the objects and arrays inside a value, and those of the objects that
  the walk along a path goes through. A value that holds one of the latter would, once
  assigned at the end of the path, make the Document hold itself.
\<close>

fun refs_of :: "jsvalue \<Rightarrow> ref list" where
  "refs_of (JArray r xs) = r # concat (map refs_of xs)"
| "refs_of (JObject r kvs) = r # concat (map (\<lambda>kv. refs_of (snd kv)) kvs)"
| "refs_of v = []"

fun path_refs :: "jsvalue \<Rightarrow> string list \<Rightarrow> ref list" where
  "path_refs (JObject r kvs) [] = [r]"
| "path_refs (JObject r kvs) (p # ps) =
     r # (case map_of kvs p of None \<Rightarrow> [] | Some child \<Rightarrow> path_refs child ps)"
| "path_refs w ps = []"

text \<open>A parser that reads the text \<open>null\<close> and rejects every other text.\<close>

definition parse_null :: "string \<Rightarrow> error + jsvalue" where
  "parse_null t = (if t = ''null'' then Inr JNull else Inl SyntaxError)"

section \<open>Properties of the path resolver\<close>

lemma map_of_update_key_same: "map_of (update_key kvs k v) k = Some v"
  by (induction kvs) auto

lemma map_of_update_key_other: "k' \<noteq> k \<Longrightarrow> map_of (update_key kvs k v) k' = map_of kvs k'"
  by (induction kvs) auto

lemma descend_Some_object: "descend obj ps = Some o' \<Longrightarrow> is_object obj \<and> is_object o'"
  by (induction obj ps rule: descend.induct) (auto split: option.splits)

lemma set_walk_undefined: "set_walk JUndefined (p # ps) v = Inl TypeError"
  by (cases ps) auto

lemma set_walk_missing:
  "descend obj pre = Some (JObject r kvs) \<Longrightarrow> map_of kvs p = None \<and> \<not> inherited p \<Longrightarrow>
   set_walk obj (pre @ p # q # rest) v = Inl TypeError"
proof (induction pre arbitrary: obj)
  case Nil
  then obtain r' kvs' where "obj = JObject r' kvs'" by (cases obj) auto
  with Nil show ?case by (simp add: set_walk_undefined)
next
  case (Cons a pre)
  then obtain r' kvs' where o: "obj = JObject r' kvs'" by (cases obj) auto
  with Cons.prems obtain child where c: "map_of kvs' a = Some child" "descend child pre = Some (JObject r kvs)"
    by (auto split: option.splits)
  have "pre @ p # q # rest = hd (pre @ p # q # rest) # tl (pre @ p # q # rest)" by (cases pre) auto
  then obtain x xs where e: "pre @ p # q # rest = x # xs" by metis
  show ?case using Cons.IH[OF c(2) Cons.prems(2)] o c(1) e by simp
qed

lemma set_walk_get_walk:
  "segs \<noteq> [] \<Longrightarrow> descend obj (butlast segs) = Some parent \<Longrightarrow>
   last segs \<noteq> ''__proto__'' \<Longrightarrow>
   \<exists>obj'. set_walk obj segs v = Inr obj' \<and> is_object obj' \<and> get_walk obj' segs = Inr v \<and>
     (\<exists>r kvs. get_walk obj' (butlast segs) = Inr (JObject r kvs) \<and> map_of kvs (last segs) = Some v)"
proof (induction obj segs v rule: set_walk.induct)
  case (1 obj v)
  then show ?case by simp
next
  case (2 obj p v)
  then obtain r kvs where "obj = JObject r kvs" by (cases obj) auto
  moreover have "p \<noteq> ''__proto__''" using "2.prems"(3) by simp
  ultimately show ?case by (simp add: map_of_update_key_same)
next
  case (3 obj p q ps v)
  then obtain r kvs where o: "obj = JObject r kvs" by (cases obj) auto
  with "3.prems" obtain child where c: "map_of kvs p = Some child" "descend child (butlast (q # ps)) = Some parent"
    by (auto split: option.splits)
  have g: "js_get obj p = Inr child" using o c by simp
  have l: "last (q # ps) \<noteq> ''__proto__''" using "3.prems"(3) by simp
  from "3.IH"[OF g _ c(2) l] obtain child' where
    c': "set_walk child (q # ps) v = Inr child'" "is_object child'" "get_walk child' (q # ps) = Inr v"
      "\<exists>r kvs. get_walk child' (butlast (q # ps)) = Inr (JObject r kvs) \<and> map_of kvs (last (q # ps)) = Some v"
    by auto
  show ?case using o c c' g by (simp add: map_of_update_key_same)
qed

lemma split_dot_nonempty: "split_dot k \<noteq> []"
  by (induction k) (auto split: list.splits)

lemma save_object:
  "is_object (data s) \<Longrightarrow>
   save s = (Inr (), s\<lparr>files := (files s)(jsonFilePath s \<mapsto> serialize 0 (data s))\<rparr>)"
  by (cases "data s") (auto simp: save_def JSON_stringify_def)

text \<open>
  C1, as the code has it. When every segment of the key but the last resolves, in turn,
  to an existing mapping, the last segment is not \<open>__proto__\<close>, and the value holds
  none of the mappings on the path (so that the Document does not come to hold
  itself), \<open>set(k, v)\<close> succeeds and \<open>get(k)\<close> then returns \<open>v\<close> itself, hence a value
  structurally equal to \<open>v\<close>; and \<open>get\<close> of the path without its last segment returns
  a mapping holding \<open>v\<close> under the last segment, as \<open>get("a")\<close> after
  \<open>set("a.b", 1)\<close>.
\<close>

theorem set_then_get:
  assumes "descend (data s) (butlast (split_dot key)) = Some parent"
    and "last (split_dot key) \<noteq> ''__proto__''"
    and "set (path_refs (data s) (butlast (split_dot key))) \<inter> set (refs_of v) = {}"
  shows "\<exists>s'. set_db s key v = (Inr (), s') \<and> get s' key = Inr v \<and>
           (\<exists>w. get s' key = Inr w \<and> struct_eq w v) \<and>
           (\<forall>k'. split_dot k' = butlast (split_dot key) \<longrightarrow>
              (\<exists>r kvs. get s' k' = Inr (JObject r kvs) \<and>
                        map_of kvs (last (split_dot key)) = Some v))"
proof -
  from set_walk_get_walk[OF split_dot_nonempty assms(1,2), of v] obtain obj' where
    w: "set_walk (data s) (split_dot key) v = Inr obj'" "is_object obj'"
       "get_walk obj' (split_dot key) = Inr v"
       "\<exists>r kvs. get_walk obj' (butlast (split_dot key)) = Inr (JObject r kvs) \<and>
                map_of kvs (last (split_dot key)) = Some v"
    by blast
  let ?s1 = "s\<lparr>data := obj'\<rparr>"
  let ?s' = "?s1\<lparr>files := (files ?s1)(jsonFilePath ?s1 \<mapsto> serialize 0 (data ?s1))\<rparr>"
  have sv: "save ?s1 = (Inr (), ?s')" using w(2) by (intro save_object) simp
  have "set_db s key v = (Inr (), ?s')"
    using w(1) sv by (simp add: set_db_def setNestedProperty_def)
  moreover have "get ?s' key = Inr v"
    using w(3) by (simp add: get_def getNestedProperty_def)
  moreover have "\<exists>w. get ?s' key = Inr w \<and> struct_eq w v"
    using w(3) by (simp add: get_def getNestedProperty_def struct_eq_def)
  moreover have "\<forall>k'. split_dot k' = butlast (split_dot key) \<longrightarrow>
              (\<exists>r kvs. get ?s' k' = Inr (JObject r kvs) \<and>
                        map_of kvs (last (split_dot key)) = Some v)"
    using w(4) by (simp add: get_def getNestedProperty_def)
  ultimately show ?thesis by blast
qed

text \<open>
  C8. When a segment of the key that is not the last one is missing from the mapping
  reached so far, as an own property and as an inherited member, \<open>set\<close> does not
  create it: the walk goes on from \<open>undefined\<close> and the
  next access throws a \<open>TypeError\<close>, leaving the Document and the file as they were.
\<close>

theorem set_missing_intermediate_fails:
  assumes "split_dot key = pre @ p # q # rest"
    and "descend (data s) pre = Some (JObject r kvs)"
    and "map_of kvs p = None \<and> \<not> inherited p"
  shows "set_db s key v = (Inl TypeError, s)"
  using set_walk_missing[OF assms(2,3), of q rest v] assms(1)
  by (simp add: set_db_def setNestedProperty_def)


theorem set_missing_intermediate_fails_witness:
  "split_dot ''a.b'' = [] @ ''a'' # ''b'' # [] \<and>
   descend (data (store_of (JObject 0 []))) [] = Some (JObject 0 []) \<and>
   map_of ([] :: (string \<times> jsvalue) list) ''a'' = None \<and> \<not> inherited ''a'' \<and>
   set_db (store_of (JObject 0 [])) ''a.b'' (JNumber 1) = (Inl TypeError, store_of (JObject 0 []))"
proof -
  have h1: "split_dot ''a.b'' = [] @ ''a'' # ''b'' # []" by simp
  have h2: "descend (data (store_of (JObject 0 []))) [] = Some (JObject 0 [])"
    by (simp add: store_of_def)
  have h3: "map_of ([] :: (string \<times> jsvalue) list) ''a'' = None \<and> \<not> inherited ''a''"
    by (simp add: inherited_def)
  show ?thesis using h1 h2 h3 set_missing_intermediate_fails[OF h1 h2 h3] by blast
qed

theorem set_then_get_witness:
  "descend (data (store_of (JObject 0 [(''a'', JObject 1 [])]))) (butlast (split_dot ''a.b''))
     = Some (JObject 1 []) \<and>
   last (split_dot ''a.b'') = ''b'' \<and>
   set (path_refs (data (store_of (JObject 0 [(''a'', JObject 1 [])]))) (butlast (split_dot ''a.b'')))
     \<inter> set (refs_of (JArray 2 [JNumber 1])) = {} \<and>
   (\<exists>s'. set_db (store_of (JObject 0 [(''a'', JObject 1 [])])) ''a.b'' (JArray 2 [JNumber 1])
            = (Inr (), s') \<and>
         get s' ''a.b'' = Inr (JArray 2 [JNumber 1]) \<and>
         (\<exists>r kvs. get s' ''a'' = Inr (JObject r kvs) \<and>
                   map_of kvs ''b'' = Some (JArray 2 [JNumber 1])))"
proof -
  have h: "descend (data (store_of (JObject 0 [(''a'', JObject 1 [])]))) (butlast (split_dot ''a.b''))
     = Some (JObject 1 [])"
    by (simp add: store_of_def)
  have l: "last (split_dot ''a.b'') = ''b''" by simp
  then have l': "last (split_dot ''a.b'') \<noteq> ''__proto__''" by simp
  have c: "set (path_refs (data (store_of (JObject 0 [(''a'', JObject 1 [])]))) (butlast (split_dot ''a.b'')))
     \<inter> set (refs_of (JArray 2 [JNumber 1])) = {}"
    by (simp add: store_of_def)
  from set_then_get[OF h l' c] obtain s' where
    s': "set_db (store_of (JObject 0 [(''a'', JObject 1 [])])) ''a.b'' (JArray 2 [JNumber 1]) = (Inr (), s')"
      "get s' ''a.b'' = Inr (JArray 2 [JNumber 1])"
      "\<forall>k'. split_dot k' = butlast (split_dot ''a.b'') \<longrightarrow>
              (\<exists>r kvs. get s' k' = Inr (JObject r kvs) \<and>
                        map_of kvs (last (split_dot ''a.b'')) = Some (JArray 2 [JNumber 1]))"
    by blast
  have "split_dot ''a'' = butlast (split_dot ''a.b'')" by simp
  with s'(3) have "\<exists>r kvs. get s' ''a'' = Inr (JObject r kvs) \<and>
                        map_of kvs (last (split_dot ''a.b'')) = Some (JArray 2 [JNumber 1])" by blast
  then have "\<exists>r kvs. get s' ''a'' = Inr (JObject r kvs) \<and> map_of kvs ''b'' = Some (JArray 2 [JNumber 1])"
    by simp
  with h l c s'(1,2) show ?thesis by blast
qed

theorem set_proto_counterexample:
  "descend (data (store_of (JObject 0 []))) (butlast (split_dot ''__proto__'')) = Some (JObject 0 []) \<and>
   fst (set_db (store_of (JObject 0 [])) ''__proto__'' (JNumber 1)) = Inr () \<and>
   get (snd (set_db (store_of (JObject 0 [])) ''__proto__'' (JNumber 1))) ''__proto__''
     = Inr (JBuiltin ''__proto__'') \<and>
   \<not> struct_eq (JBuiltin ''__proto__'') (JNumber 1)"
  by code_simp

section \<open>Persistence\<close>

lemma save_persists:
  "save s = (Inr (), s') \<Longrightarrow>
   \<exists>text. JSON_stringify (data s') = Some text \<and> files s' (jsonFilePath s') = Some text"
  by (auto simp: save_def split: option.splits)

lemma set_db_persists:
  "set_db s key v = (Inr (), s') \<Longrightarrow>
   \<exists>text. JSON_stringify (data s') = Some text \<and> files s' (jsonFilePath s') = Some text"
  by (auto simp: set_db_def split: sum.splits dest: save_persists)

lemma delete_persists:
  "delete s key = (Inr (), s') \<Longrightarrow>
   \<exists>text. JSON_stringify (data s') = Some text \<and> files s' (jsonFilePath s') = Some text"
  by (auto simp: delete_def split: sum.splits dest: save_persists)

lemma add_persists:
  "add s key count = (Inr (), s') \<Longrightarrow>
   \<exists>text. JSON_stringify (data s') = Some text \<and> files s' (jsonFilePath s') = Some text"
  by (auto simp: add_def split: sum.splits dest: save_persists)

lemma subtract_persists:
  "subtract s2n s key count = (Inr (), s') \<Longrightarrow>
   \<exists>text. JSON_stringify (data s') = Some text \<and> files s' (jsonFilePath s') = Some text"
  by (auto simp: subtract_def split: sum.splits dest: save_persists)

lemma push_persists:
  "push s key element = (Inr (), s') \<Longrightarrow>
   \<exists>text. JSON_stringify (data s') = Some text \<and> files s' (jsonFilePath s') = Some text"
  by (auto simp: push_def Let_def split: sum.splits jsvalue.splits dest: save_persists)

lemma pullOne_persists:
  "pullOne s key element = (Inr (), s') \<Longrightarrow>
   \<exists>text. JSON_stringify (data s') = Some text \<and> files s' (jsonFilePath s') = Some text"
  by (auto simp: pullOne_def Let_def split: sum.splits jsvalue.splits option.splits if_splits
      dest: save_persists)

lemma pullMany_persists:
  "pullMany s key element = (Inr (), s') \<Longrightarrow>
   \<exists>text. JSON_stringify (data s') = Some text \<and> files s' (jsonFilePath s') = Some text"
  by (auto simp: pullMany_def Let_def split: sum.splits jsvalue.splits if_splits
      dest: save_persists)

lemma clear_persists:
  "clear s key = (Inr (), s') \<Longrightarrow>
   \<exists>text. JSON_stringify (data s') = Some text \<and> files s' (jsonFilePath s') = Some text"
  by (auto simp: clear_def split: sum.splits if_splits dest: save_persists)

lemma clearAll_persists:
  "clearAll s = (Inr (), s') \<Longrightarrow>
   \<exists>text. JSON_stringify (data s') = Some text \<and> files s' (jsonFilePath s') = Some text"
  by (auto simp: clearAll_def dest: save_persists)

text \<open>
  C2. After a call of \<open>set\<close>, \<open>delete\<close>, \<open>add\<close>, \<open>subtract\<close>, \<open>push\<close>, \<open>pullOne\<close>,
  \<open>pullMany\<close>, \<open>clear\<close> or \<open>clearAll\<close> that returns normally, the contents of the
  backing file are the JSON serialisation of the Document the store then holds.
\<close>

theorem mutation_persists:
  assumes "mutate s2n s m = (Inr (), s')"
  shows "\<exists>text. JSON_stringify (data s') = Some text \<and> files s' (jsonFilePath s') = Some text"
  using assms
  by (cases m)
     (simp_all add: set_db_persists delete_persists add_persists subtract_persists push_persists
        pullOne_persists pullMany_persists clear_persists clearAll_persists)

theorem mutation_persists_witness:
  "mutate (\<lambda>t. None) (store_of (JObject 0 [])) (Set ''a'' (JNumber 1))
     = (Inr (), snd (mutate (\<lambda>t. None) (store_of (JObject 0 [])) (Set ''a'' (JNumber 1)))) \<and>
   (\<exists>text. JSON_stringify (data (snd (mutate (\<lambda>t. None) (store_of (JObject 0 [])) (Set ''a'' (JNumber 1)))))
             = Some text \<and>
           files (snd (mutate (\<lambda>t. None) (store_of (JObject 0 [])) (Set ''a'' (JNumber 1))))
             (jsonFilePath (snd (mutate (\<lambda>t. None) (store_of (JObject 0 [])) (Set ''a'' (JNumber 1)))))
             = Some text)"
proof -
  have f: "fst (mutate (\<lambda>t. None) (store_of (JObject 0 [])) (Set ''a'' (JNumber 1))) = Inr ()"
    by code_simp
  have h: "mutate (\<lambda>t. None) (store_of (JObject 0 [])) (Set ''a'' (JNumber 1))
     = (Inr (), snd (mutate (\<lambda>t. None) (store_of (JObject 0 [])) (Set ''a'' (JNumber 1))))"
    using f by (simp add: prod_eq_iff)
  show ?thesis by (rule conjI[OF h mutation_persists[OF h]])
qed

section \<open>Operand types\<close>





lemma js_put_strict_own:
  assumes "js_get (JObject r kvs) key = Inr v" and "v \<noteq> JBuiltin ''__proto__''"
  shows "js_put_strict (JObject r kvs) key x = Inr (JObject r (update_key kvs key x))"
  using assms by (auto simp: inherited_def split: option.splits)





lemma save_object_ok: "is_object (data s) \<Longrightarrow> fst (save s) = Inr ()"
  by (simp add: save_object)










section \<open>Clearing a key\<close>

lemma clear_object:
  assumes "data s = JObject r kvs" and "js_get (data s) key = Inr v"
    and "v \<noteq> JBuiltin ''__proto__''"
  shows "clear s key =
     (if \<not> truthy v then (Inl (Error (no_key_message key)), s)
      else save (s\<lparr>data := JObject r (update_key kvs key (JObject (fresh s) [])),
                   fresh := Suc (fresh s)\<rparr>))"
  using assms js_put_strict_own[of r kvs key v "JObject (fresh s) []"]
  by (simp add: clear_def del: js_get.simps js_put_strict.simps)

text \<open>
  C4. The guard of \<open>clear\<close> is \<open>!this.data[key]\<close>: a key that is present and holds
  \<open>0\<close> is reported as missing, with the message \<open>there is no key "n", in your
  database\<close>, and is not replaced by an empty mapping.
\<close>

theorem clear_present_falsy_key:
  "map_of [(''n'', JNumber 0)] ''n'' = Some (JNumber 0) \<and>
   clear (store_of (JObject 0 [(''n'', JNumber 0)])) ''n''
     = (Inl (Error (no_key_message ''n'')), store_of (JObject 0 [(''n'', JNumber 0)]))"
  by (simp add: clear_def store_of_def)

section \<open>Loading and snapshots\<close>

lemma fetchDataFromFile_typeof:
  assumes "files s (jsonFilePath s) = Some t" and "parse t = Inr savedData"
  shows "fetchDataFromFile parse s =
     (Inr (), if js_typeof savedData = ''object'' then s\<lparr>data := savedData\<rparr> else s)"
  using assms by (simp add: fetchDataFromFile_def)

text \<open>
  C5. \<open>typeof null\<close> is \<open>"object"\<close>: a backing file holding \<open>null\<close> is parsed and
  \<open>null\<close> becomes the Document, on which the next \<open>set\<close> throws.
\<close>

theorem constructor_accepts_null:
  "fst (constructor parse_null [''db.json'' \<mapsto> ''null''] {} 0 (Some ''db.json'') None) = Inr () \<and>
   data (snd (constructor parse_null [''db.json'' \<mapsto> ''null''] {} 0 (Some ''db.json'') None)) = JNull \<and>
   fst (set_db (snd (constructor parse_null [''db.json'' \<mapsto> ''null''] {} 0 (Some ''db.json'') None))
          ''a'' (JNumber 1)) = Inl TypeError"
  by (simp add: constructor_def fetchDataFromFile_def parse_null_def string_or_def existsSync_def
      Let_def set_db_def setNestedProperty_def)

text \<open>
  C6. \<open>makeSnapshot\<close> never writes a file: whatever the store, the path and the time,
  the call throws a \<open>TypeError\<close> and the files are what they were.
\<close>

theorem makeSnapshot_writes_nothing:
  "(fst (makeSnapshot s path_arg now) = Inl TypeError) \<and> files (snd (makeSnapshot s path_arg now)) = files s"
  by (simp add: makeSnapshot_def ensure_dir_def Let_def split: option.splits)

section \<open>Removing elements of a sequence\<close>

lemma indexOf_None_iff: "indexOf xs el = None \<longleftrightarrow> (\<forall>x\<in>set xs. \<not> strict_eq x el)"
  by (induction xs) auto

lemma indexOf_first:
  "\<forall>y\<in>set pre. \<not> strict_eq y el \<Longrightarrow> strict_eq x el \<Longrightarrow>
   indexOf (pre @ x # post) el = Some (length pre)"
  by (induction pre) auto

lemma splice1_middle: "splice1 (pre @ x # post) (length pre) = pre @ post"
  by (simp add: splice1_def)

lemma pull_loop_filter:
  "pull_loop val el i = take i val @ filter (\<lambda>x. \<not> strict_eq x el) (drop i val)"
proof (induction val el i rule: pull_loop.induct)
  case (1 val el i)
  show ?case
  proof (cases "i < length val")
    case False
    then show ?thesis by (subst pull_loop.simps) simp
  next
    case True
    note lt = this
    have d: "drop i val = val ! i # drop (Suc i) val"
      using lt by (simp add: Cons_nth_drop_Suc)
    show ?thesis
    proof (cases "strict_eq (val ! i) el")
      case True
      have "pull_loop val el i = pull_loop (splice1 val i) el i"
        using lt True by (subst pull_loop.simps) simp
      also have "\<dots> = take i (splice1 val i) @ filter (\<lambda>x. \<not> strict_eq x el) (drop i (splice1 val i))"
        using "1.IH"(1)[OF lt True] .
      also have "take i (splice1 val i) = take i val"
        using lt by (simp add: splice1_def)
      also have "drop i (splice1 val i) = drop (Suc i) val"
        using lt by (simp add: splice1_def)
      finally show ?thesis using True d by simp
    next
      case False
      have "pull_loop val el i = pull_loop val el (Suc i)"
        using lt False by (subst pull_loop.simps) simp
      also have "\<dots> = take (Suc i) val @ filter (\<lambda>x. \<not> strict_eq x el) (drop (Suc i) val)"
        using "1.IH"(2)[OF lt False] .
      finally show ?thesis using False d lt by (simp add: take_Suc_conv_app_nth)
    qed
  qed
qed

lemma update_key_same: "map_of kvs k = Some v \<Longrightarrow> update_key kvs k v = kvs"
  by (induction kvs) (auto split: if_splits)

lemma pullOne_array:
  assumes "data s = JObject r kvs" and "map_of kvs key = Some (JArray a xs)"
  shows "\<exists>s'. pullOne s key el = (Inr (), s') \<and>
     data s' = JObject r (update_key kvs key
                 (JArray a (case indexOf xs el of None \<Rightarrow> xs | Some i \<Rightarrow> splice1 xs i)))"
  using assms
  by (simp add: pullOne_def init_key_def and_then_def update_key_same save_object
      split: option.splits)

lemma pullMany_array:
  assumes "data s = JObject r kvs" and "map_of kvs key = Some (JArray a xs)"
  shows "\<exists>s'. pullMany s key el = (Inr (), s') \<and>
     data s' = JObject r (update_key kvs key (JArray a (filter (\<lambda>x. \<not> strict_eq x el) xs)))"
  using assms
  by (simp add: pullMany_def init_key_def and_then_def pull_loop_filter save_object)

lemma not_inherited_proto: "\<not> inherited key \<Longrightarrow> key \<noteq> ''__proto__''"
  by (auto simp: inherited_def)

lemma pullOne_absent:
  assumes "data s = JObject r kvs" and "map_of kvs key = None \<and> \<not> inherited key"
  shows "\<exists>s'. pullOne s key el = (Inr (), s') \<and>
     data s' = JObject r (update_key kvs key (JArray (fresh s) []))"
  using assms not_inherited_proto[of key]
  by (simp add: pullOne_def init_key_def and_then_def map_of_update_key_same update_key_same
      save_object)

lemma pullMany_absent:
  assumes "data s = JObject r kvs" and "map_of kvs key = None \<and> \<not> inherited key"
  shows "\<exists>s'. pullMany s key el = (Inr (), s') \<and>
     data s' = JObject r (update_key kvs key (JArray (fresh s) []))"
proof -
  have "pull_loop [] el 0 = []" by (subst pull_loop.simps) simp
  with assms not_inherited_proto[of key] show ?thesis
    by (simp add: pullMany_def init_key_def and_then_def map_of_update_key_same update_key_same
        save_object)
qed

lemma pullOne_result:
  "(case indexOf xs el of None \<Rightarrow> xs | Some i \<Rightarrow> splice1 xs i) = ys \<Longrightarrow>
   ((\<forall>x\<in>set xs. \<not> strict_eq x el) \<longrightarrow> ys = xs) \<and>
   (\<forall>pre x post. xs = pre @ x # post \<and> (\<forall>y\<in>set pre. \<not> strict_eq y el) \<and> strict_eq x el
      \<longrightarrow> ys = pre @ post)"
proof (intro conjI allI impI)
  assume "(case indexOf xs el of None \<Rightarrow> xs | Some i \<Rightarrow> splice1 xs i) = ys"
    and "\<forall>x\<in>set xs. \<not> strict_eq x el"
  then show "ys = xs" by (simp add: indexOf_None_iff[symmetric])
next
  fix pre x post
  assume ys: "(case indexOf xs el of None \<Rightarrow> xs | Some i \<Rightarrow> splice1 xs i) = ys"
    and d: "xs = pre @ x # post \<and> (\<forall>y\<in>set pre. \<not> strict_eq y el) \<and> strict_eq x el"
  then have "indexOf xs el = Some (length pre)" by (simp add: indexOf_first)
  with ys d show "ys = pre @ post" by (simp add: splice1_middle)
qed

text \<open>
  C7, as the code has it. On a Document that is a mapping, with \<open>===\<close> as the
  equality of elements: when the key holds a sequence, \<open>pullOne\<close> leaves it as it is
  if no element equals the argument and otherwise removes the first element that does,
  and nothing else; \<open>pullMany\<close> keeps exactly the elements that do not equal the
  argument, in their order. When the key is absent and names no member inherited from
  \<open>Object.prototype\<close>, both store an empty sequence under it.
\<close>

theorem pull_removes:
  assumes "data s = JObject r kvs"
  shows "(map_of kvs key = Some (JArray a xs) \<longrightarrow>
            (\<exists>s' ys. pullOne s key el = (Inr (), s') \<and>
                data s' = JObject r (update_key kvs key (JArray a ys)) \<and>
                ((\<forall>x\<in>set xs. \<not> strict_eq x el) \<longrightarrow> ys = xs) \<and>
                (\<forall>pre x post. xs = pre @ x # post \<and> (\<forall>y\<in>set pre. \<not> strict_eq y el) \<and>
                     strict_eq x el \<longrightarrow> ys = pre @ post)) \<and>
            (\<exists>s'. pullMany s key el = (Inr (), s') \<and>
                data s' = JObject r (update_key kvs key
                            (JArray a (filter (\<lambda>x. \<not> strict_eq x el) xs))))) \<and>
         (map_of kvs key = None \<and> \<not> inherited key \<longrightarrow>
            (\<exists>s'. pullOne s key el = (Inr (), s') \<and>
                data s' = JObject r (update_key kvs key (JArray (fresh s) []))) \<and>
            (\<exists>s'. pullMany s key el = (Inr (), s') \<and>
                data s' = JObject r (update_key kvs key (JArray (fresh s) []))))"
proof (intro conjI impI)
  assume k: "map_of kvs key = Some (JArray a xs)"
  from pullOne_array[OF assms k, of el] obtain s' where
    s': "pullOne s key el = (Inr (), s')"
      "data s' = JObject r (update_key kvs key
                 (JArray a (case indexOf xs el of None \<Rightarrow> xs | Some i \<Rightarrow> splice1 xs i)))"
    by blast
  from pullOne_result[OF refl, of xs el] s'
  show "\<exists>s' ys. pullOne s key el = (Inr (), s') \<and>
                data s' = JObject r (update_key kvs key (JArray a ys)) \<and>
                ((\<forall>x\<in>set xs. \<not> strict_eq x el) \<longrightarrow> ys = xs) \<and>
                (\<forall>pre x post. xs = pre @ x # post \<and> (\<forall>y\<in>set pre. \<not> strict_eq y el) \<and>
                     strict_eq x el \<longrightarrow> ys = pre @ post)"
    by blast
  show "\<exists>s'. pullMany s key el = (Inr (), s') \<and>
                data s' = JObject r (update_key kvs key
                            (JArray a (filter (\<lambda>x. \<not> strict_eq x el) xs)))"
    by (rule pullMany_array[OF assms k])
next
  assume k: "map_of kvs key = None \<and> \<not> inherited key"
  show "\<exists>s'. pullOne s key el = (Inr (), s') \<and>
                data s' = JObject r (update_key kvs key (JArray (fresh s) []))"
    by (rule pullOne_absent[OF assms k])
  show "\<exists>s'. pullMany s key el = (Inr (), s') \<and>
                data s' = JObject r (update_key kvs key (JArray (fresh s) []))"
    by (rule pullMany_absent[OF assms k])
qed

theorem pull_removes_witness:
  "data (list_store [JString ''x'', JString ''x'', JString ''y''])
     = JObject 0 [(''list'', JArray 1 [JString ''x'', JString ''x'', JString ''y''])] \<and>
   (\<exists>s'. pullOne (list_store [JString ''x'', JString ''x'', JString ''y'']) ''list'' (JString ''x'')
            = (Inr (), s') \<and>
         data s' = JObject 0 [(''list'', JArray 1 [JString ''x'', JString ''y''])]) \<and>
   (\<exists>s'. pullMany (list_store [JString ''x'', JString ''x'', JString ''y'']) ''list'' (JString ''x'')
            = (Inr (), s') \<and>
         data s' = JObject 0 [(''list'', JArray 1 [JString ''y''])]) \<and>
   map_of [(''list'', JArray 1 [JString ''x'', JString ''x'', JString ''y''])] ''other'' = None \<and>
   inherited ''other'' = False \<and>
   (\<exists>s'. pullOne (list_store [JString ''x'', JString ''x'', JString ''y'']) ''other'' (JString ''x'')
            = (Inr (), s') \<and>
         data s' = JObject 0 [(''list'', JArray 1 [JString ''x'', JString ''x'', JString ''y'']),
                              (''other'', JArray 100 [])])"
proof -
  let ?xs = "[JString ''x'', JString ''x'', JString ''y'']"
  let ?kvs = "[(''list'', JArray 1 ?xs)]"
  have h: "data (list_store ?xs) = JObject 0 ?kvs"
    by (simp add: list_store_def store_of_def)
  have k: "map_of ?kvs ''list'' = Some (JArray 1 ?xs)" by simp
  from pull_removes[OF h, of "''list''" 1 ?xs "JString ''x''"] k
  obtain s1 ys s2 where
    one: "pullOne (list_store ?xs) ''list'' (JString ''x'') = (Inr (), s1)"
      "data s1 = JObject 0 (update_key ?kvs ''list'' (JArray 1 ys))"
      "\<forall>pre x post. ?xs = pre @ x # post \<and> (\<forall>y\<in>set pre. \<not> strict_eq y (JString ''x'')) \<and>
           strict_eq x (JString ''x'') \<longrightarrow> ys = pre @ post"
    and many: "pullMany (list_store ?xs) ''list'' (JString ''x'') = (Inr (), s2)"
      "data s2 = JObject 0 (update_key ?kvs ''list''
                   (JArray 1 (filter (\<lambda>x. \<not> strict_eq x (JString ''x'')) ?xs)))"
    by blast
  have "?xs = [] @ JString ''x'' # [JString ''x'', JString ''y''] \<and>
        (\<forall>y\<in>set []. \<not> strict_eq y (JString ''x'')) \<and> strict_eq (JString ''x'') (JString ''x'')"
    by simp
  with one(3) have "ys = [] @ [JString ''x'', JString ''y'']" by blast
  with one(2) have d1: "data s1 = JObject 0 [(''list'', JArray 1 [JString ''x'', JString ''y''])]"
    by simp
  from many(2) have d2: "data s2 = JObject 0 [(''list'', JArray 1 [JString ''y''])]"
    by simp
  have a: "map_of ?kvs ''other'' = None \<and> \<not> inherited ''other''"
    by (simp add: inherited_def)
  have f: "fresh (list_store ?xs) = 100" by (simp add: list_store_def store_of_def)
  from pull_removes[OF h, of "''other''" 0 "[]" "JString ''x''"] a
  obtain s3 where
    absent: "pullOne (list_store ?xs) ''other'' (JString ''x'') = (Inr (), s3)"
      "data s3 = JObject 0 (update_key ?kvs ''other'' (JArray (fresh (list_store ?xs)) []))"
    by blast
  from absent(2) f have d3: "data s3 = JObject 0 [(''list'', JArray 1 ?xs), (''other'', JArray 100 [])]"
    by simp
  from a have a': "map_of ?kvs ''other'' = None" "inherited ''other'' = False" by simp_all
  from h one(1) d1 many(1) d2 a' absent(1) d3 show ?thesis by blast
qed

theorem pull_inherited_key_counterexample:
  "map_of ([] :: (string \<times> jsvalue) list) ''constructor'' = None \<and>
   fst (pullOne (store_of (JObject 0 [])) ''constructor'' (JNumber 1)) = Inl TypeError \<and>
   data (snd (pullOne (store_of (JObject 0 [])) ''constructor'' (JNumber 1))) = JObject 0 [] \<and>
   fst (pullMany (store_of (JObject 0 [])) ''constructor'' (JNumber 1)) = Inr () \<and>
   data (snd (pullMany (store_of (JObject 0 [])) ''constructor'' (JNumber 1))) = JObject 0 []"
  by code_simp

text \<open>
  C10, as the code has it. When no element of the sequence under the key is identical
  (\<open>===\<close>) to the argument, \<open>pullOne\<close> and \<open>pullMany\<close> leave the Document as it is,
  however many elements are structurally equal to the argument; and a primitive other
  than \<open>NaN\<close> that is structurally equal to the argument is identical to it.
\<close>

theorem pull_by_identity:
  assumes "data s = JObject r kvs" and "map_of kvs key = Some (JArray a xs)"
    and "\<forall>x\<in>set xs. \<not> strict_eq x el"
  shows "(\<exists>s'. pullOne s key el = (Inr (), s') \<and> data s' = data s) \<and>
         (\<exists>s'. pullMany s key el = (Inr (), s') \<and> data s' = data s) \<and>
         (\<forall>x. primitive x \<and> x \<noteq> JNaN \<and> struct_eq x el \<longrightarrow> strict_eq x el)"
proof (intro conjI allI impI)
  have i: "indexOf xs el = None" using assms(3) by (simp add: indexOf_None_iff)
  have f: "filter (\<lambda>x. \<not> strict_eq x el) xs = xs" using assms(3) by simp
  have u: "update_key kvs key (JArray a xs) = kvs" using assms(2) by (rule update_key_same)
  from pullOne_array[OF assms(1,2), of el] i u assms(1)
  show "\<exists>s'. pullOne s key el = (Inr (), s') \<and> data s' = data s" by simp
  from pullMany_array[OF assms(1,2), of el] f u assms(1)
  show "\<exists>s'. pullMany s key el = (Inr (), s') \<and> data s' = data s" by simp
next
  fix x
  assume "primitive x \<and> x \<noteq> JNaN \<and> struct_eq x el"
  then show "strict_eq x el"
    by (cases x; cases el) (auto simp: struct_eq_def)
qed

theorem pull_by_identity_witness:
  "data (list_store [JObject 2 [(''b'', JNumber 1)]])
     = JObject 0 [(''list'', JArray 1 [JObject 2 [(''b'', JNumber 1)]])] \<and>
   struct_eq (JObject 2 [(''b'', JNumber 1)]) (JObject 3 [(''b'', JNumber 1)]) \<and>
   \<not> strict_eq (JObject 2 [(''b'', JNumber 1)]) (JObject 3 [(''b'', JNumber 1)]) \<and>
   (\<exists>s'. pullOne (list_store [JObject 2 [(''b'', JNumber 1)]]) ''list'' (JObject 3 [(''b'', JNumber 1)])
            = (Inr (), s') \<and>
         data s' = JObject 0 [(''list'', JArray 1 [JObject 2 [(''b'', JNumber 1)]])]) \<and>
   (\<exists>s'. pullMany (list_store [JObject 2 [(''b'', JNumber 1)]]) ''list'' (JObject 3 [(''b'', JNumber 1)])
            = (Inr (), s') \<and>
         data s' = JObject 0 [(''list'', JArray 1 [JObject 2 [(''b'', JNumber 1)]])])"
proof -
  let ?xs = "[JObject 2 [(''b'', JNumber 1)]]"
  let ?el = "JObject 3 [(''b'', JNumber 1)]"
  have h1: "data (list_store ?xs) = JObject 0 [(''list'', JArray 1 ?xs)]"
    by (simp add: list_store_def store_of_def)
  have h2: "map_of [(''list'', JArray 1 ?xs)] ''list'' = Some (JArray 1 ?xs)" by simp
  have h3: "\<forall>x\<in>set ?xs. \<not> strict_eq x ?el" by simp
  have e: "struct_eq (JObject 2 [(''b'', JNumber 1)]) ?el" by (simp add: struct_eq_def)
  from pull_by_identity[OF h1 h2 h3] h1 h3 e show ?thesis by simp
qed

theorem pull_structural_copy_counterexample:
  "\<not> primitive (JObject 3 []) \<and>
   struct_eq (JObject 3 []) (JObject 2 []) \<and>
   \<not> strict_eq (JObject 3 []) (JObject 2 []) \<and>
   JObject 3 [] \<in> set [JObject 2 [], JObject 3 []] \<and>
   data (list_store [JObject 2 [], JObject 3 []]) = JObject 0 [(''list'', JArray 1 [JObject 2 [], JObject 3 []])] \<and>
   data (snd (pullOne (list_store [JObject 2 [], JObject 3 []]) ''list'' (JObject 2 [])))
     = JObject 0 [(''list'', JArray 1 [JObject 3 []])]"
  by (simp add: struct_eq_def list_store_def store_of_def pullOne_def init_key_def and_then_def
      splice1_def save_def JSON_stringify_def)

section \<open>Listing the Document\<close>

lemma set_own_order: "set (own_order kvs) = set kvs"
  by (auto simp: own_order_def)

lemma filter_some_none: "filter (\<lambda>x. (\<exists>y. f x = Some y) \<and> f x = None) xs = []"
  by (induction xs) auto

lemma filter_none_some: "filter (\<lambda>x. f x = None \<and> (\<exists>y. f x = Some y)) xs = []"
  by (induction xs) auto

lemma length_filter_some_none:
  "length (filter (\<lambda>x. \<exists>y. f x = Some y) xs) + length (filter (\<lambda>x. f x = None) xs) = length xs"
  by (induction xs) auto

lemma length_own_order: "length (own_order kvs) = length kvs"
  by (simp add: own_order_def length_filter_some_none)

lemma distinct_own_order: "distinct (map fst kvs) \<Longrightarrow> distinct (map fst (own_order kvs))"
proof -
  assume d: "distinct (map fst kvs)"
  then have "distinct kvs" and i: "inj_on fst (set kvs)" by (simp_all add: distinct_map)
  then have "distinct (own_order kvs)" by (auto simp: own_order_def)
  with i show ?thesis by (simp add: distinct_map set_own_order)
qed

lemma own_order_no_index:
  "\<forall>kv\<in>set kvs. array_index (fst kv) = None \<Longrightarrow> own_order kvs = kvs"
  by (simp add: own_order_def)

lemma own_order_index_part:
  "filter (\<lambda>kv. array_index (fst kv) \<noteq> None) (own_order kvs)
     = sort_key (\<lambda>kv. index_or_zero (fst kv)) (filter (\<lambda>kv. array_index (fst kv) \<noteq> None) kvs)"
  by (simp add: own_order_def filter_sort filter_none_some)

lemma own_order_other_part:
  "filter (\<lambda>kv. array_index (fst kv) = None) (own_order kvs)
     = filter (\<lambda>kv. array_index (fst kv) = None) kvs"
  by (simp add: own_order_def filter_sort filter_some_none)

lemma collect_records:
  "distinct (map fst kvs) \<Longrightarrow> set ps \<subseteq> set kvs \<Longrightarrow>
   collect (map (\<lambda>key. and_then (js_get (JObject r kvs) key) (\<lambda>v. Inr (key, v))) (map fst ps)) = Inr ps"
  by (induction ps) (auto simp: and_then_def)

lemma all_object:
  assumes "data s = JObject r kvs" and "distinct (map fst kvs)"
  shows "all s = Inr (own_order kvs)"
  using assms collect_records[OF assms(2), of "own_order kvs" r]
  by (simp add: all_def and_then_def set_own_order del: js_get.simps)

lemma clearAll_all: "\<exists>s'. clearAll s = (Inr (), s') \<and> all s' = Inr []"
  by (simp add: clearAll_def save_object all_def and_then_def own_order_def)

text \<open>
  C9, as the code has it. On a Document that is a mapping, \<open>all\<close> returns the records
  of the top-level keys, each key once with its value, in the order of
  \<open>Object.keys\<close>: the keys that are array indices first, in ascending numeric order,
  then the other keys in insertion order. When no key is an array index this is the
  insertion order. After \<open>clearAll\<close>, \<open>all\<close> returns the empty sequence.
\<close>

theorem all_own_key_order:
  assumes "data s = JObject r kvs" and "distinct (map fst kvs)"
  shows "(\<exists>recs. all s = Inr recs \<and>
            recs = sort_key (\<lambda>kv. index_or_zero (fst kv))
                      (filter (\<lambda>kv. array_index (fst kv) \<noteq> None) kvs)
                   @ filter (\<lambda>kv. array_index (fst kv) = None) kvs \<and>
            distinct (map fst recs) \<and> set recs = set kvs \<and> length recs = length kvs \<and>
            sorted (map (\<lambda>kv. index_or_zero (fst kv))
                      (filter (\<lambda>kv. array_index (fst kv) \<noteq> None) recs)) \<and>
            filter (\<lambda>kv. array_index (fst kv) = None) recs
              = filter (\<lambda>kv. array_index (fst kv) = None) kvs) \<and>
         ((\<forall>kv\<in>set kvs. array_index (fst kv) = None) \<longrightarrow> all s = Inr kvs) \<and>
         (\<exists>s'. clearAll s = (Inr (), s') \<and> all s' = Inr [])"
proof (intro conjI impI)
  have a: "all s = Inr (own_order kvs)" by (rule all_object[OF assms])
  have e: "own_order kvs = sort_key (\<lambda>kv. index_or_zero (fst kv))
                      (filter (\<lambda>kv. array_index (fst kv) \<noteq> None) kvs)
                   @ filter (\<lambda>kv. array_index (fst kv) = None) kvs"
    by (simp add: own_order_def)
  have m: "distinct (map fst (own_order kvs))" by (rule distinct_own_order[OF assms(2)])
  have m2: "set (own_order kvs) = set kvs" by (rule set_own_order)
  have m3: "length (own_order kvs) = length kvs" by (rule length_own_order)
  have s: "sorted (map (\<lambda>kv. index_or_zero (fst kv))
                      (filter (\<lambda>kv. array_index (fst kv) \<noteq> None) (own_order kvs)))"
    by (simp only: own_order_index_part sorted_sort_key)
  have f: "filter (\<lambda>kv. array_index (fst kv) = None) (own_order kvs)
              = filter (\<lambda>kv. array_index (fst kv) = None) kvs"
    by (rule own_order_other_part)
  from a e m m2 m3 s f
  show "\<exists>recs. all s = Inr recs \<and>
            recs = sort_key (\<lambda>kv. index_or_zero (fst kv))
                      (filter (\<lambda>kv. array_index (fst kv) \<noteq> None) kvs)
                   @ filter (\<lambda>kv. array_index (fst kv) = None) kvs \<and>
            distinct (map fst recs) \<and> set recs = set kvs \<and> length recs = length kvs \<and>
            sorted (map (\<lambda>kv. index_or_zero (fst kv))
                      (filter (\<lambda>kv. array_index (fst kv) \<noteq> None) recs)) \<and>
            filter (\<lambda>kv. array_index (fst kv) = None) recs
              = filter (\<lambda>kv. array_index (fst kv) = None) kvs"
    by (intro exI[of _ "own_order kvs"] conjI)
next
  assume "\<forall>kv\<in>set kvs. array_index (fst kv) = None"
  then show "all s = Inr kvs"
    using all_object[OF assms] by (simp add: own_order_no_index)
next
  show "\<exists>s'. clearAll s = (Inr (), s') \<and> all s' = Inr []" by (rule clearAll_all)
qed

theorem all_own_key_order_witness:
  "data (after_sets [(''b'', JNumber 1), (''10'', JNumber 2), (''9'', JNumber 3)])
     = JObject 0 [(''b'', JNumber 1), (''10'', JNumber 2), (''9'', JNumber 3)] \<and>
   distinct (map fst [(''b'', JNumber 1), (''10'', JNumber 2), (''9'', JNumber 3)]) \<and>
   all (after_sets [(''b'', JNumber 1), (''10'', JNumber 2), (''9'', JNumber 3)])
     = Inr [(''9'', JNumber 3), (''10'', JNumber 2), (''b'', JNumber 1)] \<and>
   data (after_sets [(''a'', JNumber 1), (''b'', JNumber 2)])
     = JObject 0 [(''a'', JNumber 1), (''b'', JNumber 2)] \<and>
   distinct (map fst [(''a'', JNumber 1), (''b'', JNumber 2)]) \<and>
   array_index ''a'' = None \<and> array_index ''b'' = None \<and>
   all (after_sets [(''a'', JNumber 1), (''b'', JNumber 2)])
     = Inr [(''a'', JNumber 1), (''b'', JNumber 2)] \<and>
   (\<exists>s'. clearAll (after_sets [(''a'', JNumber 1), (''b'', JNumber 2)]) = (Inr (), s') \<and>
         all s' = Inr [])"
proof -
  let ?ix = "[(''b'', JNumber 1), (''10'', JNumber 2), (''9'', JNumber 3)]"
  let ?ab = "[(''a'', JNumber 1), (''b'', JNumber 2)]"
  have i1: "data (after_sets ?ix) = JObject 0 ?ix" by code_simp
  have i2: "distinct (map fst ?ix)" by simp
  have o: "sort_key (\<lambda>kv. index_or_zero (fst kv)) (filter (\<lambda>kv. array_index (fst kv) \<noteq> None) ?ix)
             @ filter (\<lambda>kv. array_index (fst kv) = None) ?ix
           = [(''9'', JNumber 3), (''10'', JNumber 2), (''b'', JNumber 1)]"
    by code_simp
  from all_own_key_order[OF i1 i2] o
  have c1: "all (after_sets ?ix) = Inr [(''9'', JNumber 3), (''10'', JNumber 2), (''b'', JNumber 1)]"
    by auto
  have h1: "data (after_sets ?ab) = JObject 0 ?ab" by code_simp
  have h2: "distinct (map fst ?ab)" by simp
  have h3: "array_index ''a'' = None \<and> array_index ''b'' = None"
    by (simp add: array_index_def digit_val_def)
  then have h3': "\<forall>kv\<in>set ?ab. array_index (fst kv) = None" by simp
  from all_own_key_order[OF h1 h2] h3'
  have c2: "all (after_sets ?ab) = Inr ?ab"
    and c3: "\<exists>s'. clearAll (after_sets ?ab) = (Inr (), s') \<and> all s' = Inr []"
    by blast+
  from i1 i2 c1 h1 h2 h3 c2 c3 show ?thesis by (intro conjI) (erule conjunct1 | erule conjunct2 | assumption)+
qed

theorem index_key_first_counterexample:
  "data (after_sets [(''b'', JNumber 1), (''1'', JNumber 2)])
     = JObject 0 [(''b'', JNumber 1), (''1'', JNumber 2)] \<and>
   all (after_sets [(''b'', JNumber 1), (''1'', JNumber 2)])
     = Inr [(''1'', JNumber 2), (''b'', JNumber 1)]"
  by code_simp

end
